theory Spec2Isabelle
  imports Main
begin

section \<open>The serial-to-BLE-mouse sketch (esp/main/main.ino)\<close>

text \<open>
  The sketch polls a serial port and turns single command bytes into calls of an external
  BLE HID mouse library. Everything it does is a call into the Arduino core
  (\<^verbatim>\<open>delay\<close>, \<^verbatim>\<open>Serial\<close>) or into the mouse library (\<^verbatim>\<open>bleMouse\<close>), so the model
  is a state that holds what the sketch can read (the connection status, the pending
  serial bytes) and a trace of the calls with an outside effect it has made, oldest first.
\<close>

subsection \<open>Data\<close>

text \<open>The three button constants of the mouse library that the sketch passes to \<^verbatim>\<open>click\<close>.\<close>

datatype button = MOUSE_LEFT | MOUSE_RIGHT | MOUSE_MIDDLE

datatype event =
    Delay nat               \<comment> \<open>\<^verbatim>\<open>delay(ms)\<close>\<close>
  | Move int int            \<comment> \<open>\<^verbatim>\<open>bleMouse.move(x, y)\<close>\<close>
  | Click button            \<comment> \<open>\<^verbatim>\<open>bleMouse.click(b)\<close>\<close>
  | SerialPrint string      \<comment> \<open>\<^verbatim>\<open>Serial.print(s)\<close>: the bytes of \<open>s\<close>\<close>
  | SerialPrintln string    \<comment> \<open>\<^verbatim>\<open>Serial.println(s)\<close>: the bytes of \<open>s\<close>, then the line end\<close>

record world =
  connected :: bool         \<comment> \<open>what \<^verbatim>\<open>bleMouse.isConnected()\<close> answers\<close>
  rx :: string              \<comment> \<open>bytes waiting on the serial input, next one first\<close>
  trace :: "event list"     \<comment> \<open>calls made so far, oldest first\<close>

subsection \<open>The library calls the sketch makes\<close>

definition delay :: "nat \<Rightarrow> world \<Rightarrow> world" where
  "delay ms w = w\<lparr>trace := trace w @ [Delay ms]\<rparr>"

definition bleMouse_isConnected :: "world \<Rightarrow> bool" where
  "bleMouse_isConnected w = connected w"

definition bleMouse_move :: "int \<Rightarrow> int \<Rightarrow> world \<Rightarrow> world" where
  "bleMouse_move x y w = w\<lparr>trace := trace w @ [Move x y]\<rparr>"

definition bleMouse_click :: "button \<Rightarrow> world \<Rightarrow> world" where
  "bleMouse_click b w = w\<lparr>trace := trace w @ [Click b]\<rparr>"

text \<open>\<^verbatim>\<open>Serial.available()\<close>: the number of bytes waiting; it never waits.\<close>

definition Serial_available :: "world \<Rightarrow> int" where
  "Serial_available w = int (length (rx w))"

text \<open>
  \<^verbatim>\<open>Serial.read()\<close>: the next byte as an \<^verbatim>\<open>int\<close> in 0..255, taken off the input, or
  \<open>-1\<close> when nothing waits; it never waits either.
\<close>

definition Serial_read :: "world \<Rightarrow> int \<times> world" where
  "Serial_read w =
     (case rx w of
        [] \<Rightarrow> (- 1, w)
      | b # bs \<Rightarrow> (of_char b, w\<lparr>rx := bs\<rparr>))"

definition Serial_print :: "string \<Rightarrow> world \<Rightarrow> world" where
  "Serial_print s w = w\<lparr>trace := trace w @ [SerialPrint s]\<rparr>"

definition Serial_println :: "string \<Rightarrow> world \<Rightarrow> world" where
  "Serial_println s w = w\<lparr>trace := trace w @ [SerialPrintln s]\<rparr>"

text \<open>\<^verbatim>\<open>Serial.println(char)\<close> writes the one byte, then the line end.\<close>

definition Serial_println_char :: "char \<Rightarrow> world \<Rightarrow> world" where
  "Serial_println_char c w = Serial_println [c] w"

subsection \<open>The string literals of the sketch\<close>

text \<open>
  The four arrows are written in the source as UTF-8, three bytes each:
  U+2191, U+2193, U+2190 and U+2192.
\<close>

definition up_arrow :: string where
  "up_arrow = [CHR 0xE2, CHR 0x86, CHR 0x91]"

definition down_arrow :: string where
  "down_arrow = [CHR 0xE2, CHR 0x86, CHR 0x93]"

definition left_arrow :: string where
  "left_arrow = [CHR 0xE2, CHR 0x86, CHR 0x90]"

definition right_arrow :: string where
  "right_arrow = [CHR 0xE2, CHR 0x86, CHR 0x92]"

subsection \<open>The sketch\<close>

text \<open>\<^verbatim>\<open>for (int i = lo; i < hi; ++i) body\<close>\<close>

function for_loop :: "int \<Rightarrow> int \<Rightarrow> (world \<Rightarrow> world) \<Rightarrow> world \<Rightarrow> world" where
  "for_loop i hi body w = (if i < hi then for_loop (i + 1) hi body (body w) else w)"
  by pat_completeness auto
termination
  by (relation "measure (\<lambda>(i, hi, body, w). nat (hi - i))") auto

declare for_loop.simps [simp del]

text \<open>
  The \<^verbatim>\<open>switch (input)\<close> statement of \<^verbatim>\<open>loop()\<close>. Every case ends in \<^verbatim>\<open>break\<close>, so
  the switch is a chain of tests in the order of its cases.
\<close>

definition dispatch :: "char \<Rightarrow> world \<Rightarrow> world" where
  "dispatch input w =
     (if input = CHR ''w'' then
        (let w = for_loop 0 2 (\<lambda>w. let w = bleMouse_move 0 (- 127) w; w = delay 100 w in w) w;
             w = Serial_println up_arrow w
         in w)
      else if input = CHR ''s'' then
        (let w = for_loop 0 2 (\<lambda>w. let w = bleMouse_move 0 127 w; w = delay 100 w in w) w;
             w = Serial_println down_arrow w
         in w)
      else if input = CHR ''a'' then
        (let w = for_loop 0 2 (\<lambda>w. let w = bleMouse_move (- 50) 0 w; w = delay 50 w in w) w;
             w = Serial_println left_arrow w
         in w)
      else if input = CHR ''d'' then
        (let w = for_loop 0 2 (\<lambda>w. let w = bleMouse_move 50 0 w; w = delay 40 w in w) w;
             w = Serial_println right_arrow w
         in w)
      else if input = CHR ''c'' then
        (let w = bleMouse_click MOUSE_LEFT w;
             w = Serial_println ''Click'' w
         in w)
      else if input = CHR ''r'' then
        (let w = bleMouse_click MOUSE_RIGHT w;
             w = Serial_println ''Right click'' w
         in w)
      else if input = CHR ''m'' then
        (let w = bleMouse_click MOUSE_MIDDLE w;
             w = Serial_println ''Middle click'' w
         in w)
      else
        (let w = Serial_print ''Unknown input: '' w;
             w = Serial_println_char input w
         in w))"

text \<open>
  One call of \<^verbatim>\<open>loop()\<close>. The byte that \<^verbatim>\<open>Serial.read()\<close> returns as an \<^verbatim>\<open>int\<close> is
  stored in a \<^verbatim>\<open>char\<close>.
\<close>

definition loop :: "world \<Rightarrow> world" where
  "loop w =
     (let w = delay 10 w in
      if bleMouse_isConnected w then
        (if Serial_available w \<noteq> 0 then
           (let (r, w) = Serial_read w;
                input = char_of r
            in dispatch input w)
         else w)
      else
        delay 500 w)"

subsection \<open>Reading a trace\<close>

text \<open>What a function adds to the trace when it is run from a state.\<close>

definition emitted :: "(world \<Rightarrow> world) \<Rightarrow> world \<Rightarrow> event list" where
  "emitted f w = drop (length (trace w)) (trace (f w))"

text \<open>The calls that send a HID report: moves and clicks.\<close>

fun is_hid :: "event \<Rightarrow> bool" where
  "is_hid (Move x y) = True"
| "is_hid (Click b) = True"
| "is_hid e = False"

definition hid_reports :: "event list \<Rightarrow> event list" where
  "hid_reports es = filter is_hid es"

text \<open>The calls that write to the serial output.\<close>

fun is_serial :: "event \<Rightarrow> bool" where
  "is_serial (SerialPrint s) = True"
| "is_serial (SerialPrintln s) = True"
| "is_serial e = False"

definition diagnostics :: "event list \<Rightarrow> event list" where
  "diagnostics es = filter is_serial es"

text \<open>The bytes written to the serial output, for a line end \<open>eol\<close>.\<close>

fun serial_text :: "string \<Rightarrow> event list \<Rightarrow> string" where
  "serial_text eol [] = []"
| "serial_text eol (SerialPrint s # es) = s @ serial_text eol es"
| "serial_text eol (SerialPrintln s # es) = s @ eol @ serial_text eol es"
| "serial_text eol (e # es) = serial_text eol es"

text \<open>The number of lines ended on the serial output.\<close>

fun lines_ended :: "event list \<Rightarrow> nat" where
  "lines_ended [] = 0"
| "lines_ended (SerialPrintln s # es) = Suc (lines_ended es)"
| "lines_ended (e # es) = lines_ended es"

text \<open>The arguments of the move calls, in order.\<close>

fun moves :: "event list \<Rightarrow> (int \<times> int) list" where
  "moves [] = []"
| "moves (Move x y # es) = (x, y) # moves es"
| "moves (e # es) = moves es"

text \<open>The milliseconds slept in all.\<close>

fun total_delay :: "event list \<Rightarrow> nat" where
  "total_delay [] = 0"
| "total_delay (Delay ms # es) = ms + total_delay es"
| "total_delay (e # es) = total_delay es"

text \<open>The byte the next \<^verbatim>\<open>Serial.read()\<close> would return, if one waits.\<close>

definition next_input :: "world \<Rightarrow> char option" where
  "next_input w = (case rx w of [] \<Rightarrow> None | c # cs \<Rightarrow> Some c)"

text \<open>The set of command characters the switch has a case for.\<close>

definition recognized :: "char set" where
  "recognized = {CHR ''w'', CHR ''s'', CHR ''a'', CHR ''d'', CHR ''c'', CHR ''r'', CHR ''m''}"

section \<open>What each call appends to the trace\<close>

lemma for_loop_0_2: "for_loop 0 2 body w = body (body w)"
  by (simp add: for_loop.simps [of 0] for_loop.simps [of 1] for_loop.simps [of 2])

text \<open>The defining equations of the calls that append one event.\<close>

lemmas prims = delay_def bleMouse_move_def bleMouse_click_def Serial_print_def
  Serial_println_def Serial_println_char_def

lemma dispatch_w:
  "dispatch (CHR ''w'') w =
     w\<lparr>trace := trace w @ [Move 0 (- 127), Delay 100, Move 0 (- 127), Delay 100, SerialPrintln up_arrow]\<rparr>"
  by (simp add: dispatch_def for_loop_0_2 prims)

lemma dispatch_s:
  "dispatch (CHR ''s'') w =
     w\<lparr>trace := trace w @ [Move 0 127, Delay 100, Move 0 127, Delay 100, SerialPrintln down_arrow]\<rparr>"
  by (simp add: dispatch_def for_loop_0_2 prims)

lemma dispatch_a:
  "dispatch (CHR ''a'') w =
     w\<lparr>trace := trace w @ [Move (- 50) 0, Delay 50, Move (- 50) 0, Delay 50, SerialPrintln left_arrow]\<rparr>"
  by (simp add: dispatch_def for_loop_0_2 prims)

lemma dispatch_d:
  "dispatch (CHR ''d'') w =
     w\<lparr>trace := trace w @ [Move 50 0, Delay 40, Move 50 0, Delay 40, SerialPrintln right_arrow]\<rparr>"
  by (simp add: dispatch_def for_loop_0_2 prims)

lemma dispatch_c:
  "dispatch (CHR ''c'') w = w\<lparr>trace := trace w @ [Click MOUSE_LEFT, SerialPrintln ''Click'']\<rparr>"
  by (simp add: dispatch_def prims)

lemma dispatch_r:
  "dispatch (CHR ''r'') w = w\<lparr>trace := trace w @ [Click MOUSE_RIGHT, SerialPrintln ''Right click'']\<rparr>"
  by (simp add: dispatch_def prims)

lemma dispatch_m:
  "dispatch (CHR ''m'') w = w\<lparr>trace := trace w @ [Click MOUSE_MIDDLE, SerialPrintln ''Middle click'']\<rparr>"
  by (simp add: dispatch_def prims)

lemma dispatch_unknown:
  "c \<notin> recognized \<Longrightarrow>
   dispatch c w = w\<lparr>trace := trace w @ [SerialPrint ''Unknown input: '', SerialPrintln [c]]\<rparr>"
  by (simp add: dispatch_def recognized_def prims)

lemmas dispatch_known =
  dispatch_w dispatch_s dispatch_a dispatch_d dispatch_c dispatch_r dispatch_m

lemma command_cases [case_names w s a d c r m unknown]:
  obtains "ch = CHR ''w''" | "ch = CHR ''s''" | "ch = CHR ''a''" | "ch = CHR ''d''"
    | "ch = CHR ''c''" | "ch = CHR ''r''" | "ch = CHR ''m''" | "ch \<notin> recognized"
  by (auto simp: recognized_def)

lemma emitted_dispatch_w:
  "emitted (dispatch (CHR ''w'')) w =
     [Move 0 (- 127), Delay 100, Move 0 (- 127), Delay 100, SerialPrintln up_arrow]"
  by (simp add: dispatch_w emitted_def)

lemma emitted_dispatch_s:
  "emitted (dispatch (CHR ''s'')) w =
     [Move 0 127, Delay 100, Move 0 127, Delay 100, SerialPrintln down_arrow]"
  by (simp add: dispatch_s emitted_def)

lemma emitted_dispatch_a:
  "emitted (dispatch (CHR ''a'')) w =
     [Move (- 50) 0, Delay 50, Move (- 50) 0, Delay 50, SerialPrintln left_arrow]"
  by (simp add: dispatch_a emitted_def)

lemma emitted_dispatch_d:
  "emitted (dispatch (CHR ''d'')) w =
     [Move 50 0, Delay 40, Move 50 0, Delay 40, SerialPrintln right_arrow]"
  by (simp add: dispatch_d emitted_def)

lemma emitted_dispatch_c:
  "emitted (dispatch (CHR ''c'')) w = [Click MOUSE_LEFT, SerialPrintln ''Click'']"
  by (simp add: dispatch_c emitted_def)

lemma emitted_dispatch_r:
  "emitted (dispatch (CHR ''r'')) w = [Click MOUSE_RIGHT, SerialPrintln ''Right click'']"
  by (simp add: dispatch_r emitted_def)

lemma emitted_dispatch_m:
  "emitted (dispatch (CHR ''m'')) w = [Click MOUSE_MIDDLE, SerialPrintln ''Middle click'']"
  by (simp add: dispatch_m emitted_def)

lemma emitted_dispatch_unknown:
  "c \<notin> recognized \<Longrightarrow>
   emitted (dispatch c) w = [SerialPrint ''Unknown input: '', SerialPrintln [c]]"
  by (simp add: dispatch_unknown emitted_def)

lemmas emitted_dispatch_known =
  emitted_dispatch_w emitted_dispatch_s emitted_dispatch_a emitted_dispatch_d
  emitted_dispatch_c emitted_dispatch_r emitted_dispatch_m

text \<open>The switch only appends to the trace, and what it appends is the same from every state.\<close>

lemma emitted_dispatch_any: "emitted (dispatch c) w = emitted (dispatch c) w'"
  by (cases c rule: command_cases) (simp_all add: emitted_dispatch_known emitted_dispatch_unknown)

lemma dispatch_frame: "dispatch c w = w\<lparr>trace := trace w @ emitted (dispatch c) w\<rparr>"
  by (cases c rule: command_cases)
    (simp_all add: emitted_dispatch_known emitted_dispatch_unknown dispatch_known dispatch_unknown)

lemma loop_disconnected:
  "\<not> connected w \<Longrightarrow> loop w = w\<lparr>trace := trace w @ [Delay 10, Delay 500]\<rparr>"
  by (simp add: loop_def delay_def bleMouse_isConnected_def)

lemma loop_connected_Nil:
  "connected w \<Longrightarrow> rx w = [] \<Longrightarrow> loop w = w\<lparr>trace := trace w @ [Delay 10]\<rparr>"
  by (simp add: loop_def delay_def bleMouse_isConnected_def Serial_available_def)

lemma loop_connected_Cons:
  "connected w \<Longrightarrow> rx w = c # cs \<Longrightarrow>
   loop w = dispatch c (w\<lparr>trace := trace w @ [Delay 10], rx := cs\<rparr>)"
  by (simp add: loop_def delay_def bleMouse_isConnected_def Serial_available_def Serial_read_def)

lemma loop_connected_Cons_frame:
  assumes "connected w" and "rx w = c # cs"
  shows "loop w = w\<lparr>trace := trace w @ Delay 10 # emitted (dispatch c) w', rx := cs\<rparr>"
proof -
  let ?w1 = "w\<lparr>trace := trace w @ [Delay 10], rx := cs\<rparr>"
  have "loop w = dispatch c ?w1"
    using assms by (rule loop_connected_Cons)
  also have "\<dots> = ?w1\<lparr>trace := trace ?w1 @ emitted (dispatch c) ?w1\<rparr>"
    by (rule dispatch_frame)
  also have "emitted (dispatch c) ?w1 = emitted (dispatch c) w'"
    by (rule emitted_dispatch_any)
  finally show ?thesis by simp
qed

lemma emitted_loop_disconnected:
  "\<not> connected w \<Longrightarrow> emitted loop w = [Delay 10, Delay 500]"
  by (simp add: loop_disconnected emitted_def)

lemma emitted_loop_Nil:
  "connected w \<Longrightarrow> rx w = [] \<Longrightarrow> emitted loop w = [Delay 10]"
  by (simp add: loop_connected_Nil emitted_def)

lemma emitted_loop_Cons:
  "connected w \<Longrightarrow> rx w = c # cs \<Longrightarrow> emitted loop w = Delay 10 # emitted (dispatch c) w'"
  by (simp add: loop_connected_Cons_frame [of w c cs w'] emitted_def)

text \<open>An iteration keeps the trace it starts from and appends what it emits.\<close>

lemma trace_loop: "trace (loop w) = trace w @ emitted loop w"
proof (cases "connected w")
  case False
  then show ?thesis
    by (simp add: loop_disconnected emitted_def)
next
  case True
  show ?thesis
  proof (cases "rx w")
    case Nil
    with True show ?thesis
      by (simp add: loop_connected_Nil emitted_def)
  next
    case (Cons c cs)
    with True show ?thesis
      by (simp add: loop_connected_Cons_frame [of w c cs w] emitted_def)
  qed
qed

lemma total_delay_dispatch: "total_delay (emitted (dispatch c) w) \<le> 200"
  by (cases c rule: command_cases) (simp_all add: emitted_dispatch_known emitted_dispatch_unknown)

lemma total_delay_loop_connected:
  assumes "connected w"
  shows "total_delay (emitted loop w) \<le> 210"
proof (cases "rx w")
  case Nil
  with assms show ?thesis by (simp add: emitted_loop_Nil)
next
  case (Cons c cs)
  with assms have "emitted loop w = Delay 10 # emitted (dispatch c) w"
    by (rule emitted_loop_Cons)
  then show ?thesis
    using total_delay_dispatch [of c w] by simp
qed

lemma moves_dispatch:
  "set (moves (emitted (dispatch c) w)) \<subseteq> {(0, - 127), (0, 127), (- 50, 0), (50, 0)}"
  by (cases c rule: command_cases) (simp_all add: emitted_dispatch_known emitted_dispatch_unknown)

lemma moves_loop:
  "set (moves (emitted loop w)) \<subseteq> {(0, - 127), (0, 127), (- 50, 0), (50, 0)}"
proof (cases "connected w")
  case False
  then show ?thesis by (simp add: emitted_loop_disconnected)
next
  case True
  show ?thesis
  proof (cases "rx w")
    case Nil
    with True show ?thesis by (simp add: emitted_loop_Nil)
  next
    case (Cons c cs)
    with True have "emitted loop w = Delay 10 # emitted (dispatch c) w"
      by (rule emitted_loop_Cons)
    then show ?thesis
      using moves_dispatch [of c w] by simp
  qed
qed

section \<open>The properties of the sketch\<close>

text \<open>
  Claim C1. While the peer is connected, an iteration that reads one of the seven command
  characters makes exactly these HID calls and prints exactly this line: two
  \<^verbatim>\<open>move(0, -127)\<close> and the up arrow for \<open>w\<close>; two \<^verbatim>\<open>move(0, 127)\<close> and the down
  arrow for \<open>s\<close>; two \<^verbatim>\<open>move(-50, 0)\<close> and the left arrow for \<open>a\<close>; two
  \<^verbatim>\<open>move(50, 0)\<close> and the right arrow for \<open>d\<close>; one left click and \<open>Click\<close> for
  \<open>c\<close>; one right click and \<open>Right click\<close> for \<open>r\<close>; one middle click and
  \<open>Middle click\<close> for \<open>m\<close>.
\<close>

theorem recognized_commands_reports:
  assumes "connected w"
  shows
   "hid_reports (emitted loop (w\<lparr>rx := CHR ''w'' # cs\<rparr>)) = [Move 0 (- 127), Move 0 (- 127)]
  \<and> diagnostics (emitted loop (w\<lparr>rx := CHR ''w'' # cs\<rparr>)) = [SerialPrintln up_arrow]
  \<and> hid_reports (emitted loop (w\<lparr>rx := CHR ''s'' # cs\<rparr>)) = [Move 0 127, Move 0 127]
  \<and> diagnostics (emitted loop (w\<lparr>rx := CHR ''s'' # cs\<rparr>)) = [SerialPrintln down_arrow]
  \<and> hid_reports (emitted loop (w\<lparr>rx := CHR ''a'' # cs\<rparr>)) = [Move (- 50) 0, Move (- 50) 0]
  \<and> diagnostics (emitted loop (w\<lparr>rx := CHR ''a'' # cs\<rparr>)) = [SerialPrintln left_arrow]
  \<and> hid_reports (emitted loop (w\<lparr>rx := CHR ''d'' # cs\<rparr>)) = [Move 50 0, Move 50 0]
  \<and> diagnostics (emitted loop (w\<lparr>rx := CHR ''d'' # cs\<rparr>)) = [SerialPrintln right_arrow]
  \<and> hid_reports (emitted loop (w\<lparr>rx := CHR ''c'' # cs\<rparr>)) = [Click MOUSE_LEFT]
  \<and> diagnostics (emitted loop (w\<lparr>rx := CHR ''c'' # cs\<rparr>)) = [SerialPrintln ''Click'']
  \<and> hid_reports (emitted loop (w\<lparr>rx := CHR ''r'' # cs\<rparr>)) = [Click MOUSE_RIGHT]
  \<and> diagnostics (emitted loop (w\<lparr>rx := CHR ''r'' # cs\<rparr>)) = [SerialPrintln ''Right click'']
  \<and> hid_reports (emitted loop (w\<lparr>rx := CHR ''m'' # cs\<rparr>)) = [Click MOUSE_MIDDLE]
  \<and> diagnostics (emitted loop (w\<lparr>rx := CHR ''m'' # cs\<rparr>)) = [SerialPrintln ''Middle click'']"
proof -
  have e: "emitted loop (w\<lparr>rx := c # cs\<rparr>) = Delay 10 # emitted (dispatch c) w" for c
    using assms by (intro emitted_loop_Cons) simp_all
  show ?thesis
    by (simp add: e emitted_dispatch_known hid_reports_def diagnostics_def)
qed

theorem recognized_commands_reports_witness:
  "hid_reports (emitted loop \<lparr>connected = True, rx = ''w'', trace = []\<rparr>) = [Move 0 (- 127), Move 0 (- 127)]
 \<and> diagnostics (emitted loop \<lparr>connected = True, rx = ''w'', trace = []\<rparr>) = [SerialPrintln [CHR 0xE2, CHR 0x86, CHR 0x91]]
 \<and> hid_reports (emitted loop \<lparr>connected = True, rx = ''c'', trace = []\<rparr>) = [Click MOUSE_LEFT]
 \<and> diagnostics (emitted loop \<lparr>connected = True, rx = ''c'', trace = []\<rparr>) = [SerialPrintln ''Click'']"
  using recognized_commands_reports [of "\<lparr>connected = True, rx = [], trace = []\<rparr>" "[]"]
  by (simp add: up_arrow_def)

text \<open>
  Claim C2. In an iteration where the peer is not connected, whatever bytes wait on the
  serial input stay there, no HID call is made and nothing is printed: the iteration only
  sleeps, 10 ms and then 500 ms, which is longer than any iteration sleeps while connected.
\<close>

theorem disconnected_iteration_idles:
  assumes "\<not> connected w"
  shows "rx (loop w) = rx w
       \<and> emitted loop w = [Delay 10, Delay 500]
       \<and> hid_reports (emitted loop w) = []
       \<and> diagnostics (emitted loop w) = []
       \<and> (\<forall>w'. connected w' \<longrightarrow> total_delay (emitted loop w') < total_delay (emitted loop w))"
proof -
  have "total_delay (emitted loop w') < 510" if "connected w'" for w'
    using total_delay_loop_connected [OF that] by simp
  with assms show ?thesis
    by (simp add: loop_disconnected emitted_loop_disconnected hid_reports_def diagnostics_def)
qed

theorem disconnected_iteration_idles_witness:
  "rx (loop \<lparr>connected = False, rx = ''wz'', trace = []\<rparr>) = ''wz''
 \<and> emitted loop \<lparr>connected = False, rx = ''wz'', trace = []\<rparr> = [Delay 10, Delay 500]
 \<and> total_delay (emitted loop \<lparr>connected = True, rx = ''wz'', trace = []\<rparr>) < 510"
proof -
  let ?off = "\<lparr>connected = False, rx = ''wz'', trace = []\<rparr>"
  let ?on = "\<lparr>connected = True, rx = ''wz'', trace = []\<rparr>"
  have "\<not> connected ?off" by simp
  from disconnected_iteration_idles [OF this]
  have "rx (loop ?off) = rx ?off" and e: "emitted loop ?off = [Delay 10, Delay 500]"
    and "connected ?on \<longrightarrow> total_delay (emitted loop ?on) < total_delay (emitted loop ?off)"
    by blast+
  then show ?thesis by simp
qed

text \<open>
  Claim C3. While connected, an iteration that reads a character outside the recognized set
  makes no move and no click call, and writes exactly one line: the text
  \<open>Unknown input: \<close>, the character itself, and the line end.
\<close>

theorem unknown_input_reported:
  assumes "connected w" and "rx w = c # cs" and "c \<notin> recognized"
  shows "trace (loop w) = trace w @ emitted loop w
       \<and> emitted loop w = [Delay 10, SerialPrint ''Unknown input: '', SerialPrintln [c]]
       \<and> hid_reports (emitted loop w) = []
       \<and> moves (emitted loop w) = []
       \<and> lines_ended (emitted loop w) = 1
       \<and> serial_text eol (emitted loop w) = ''Unknown input: '' @ [c] @ eol"
proof -
  have "emitted loop w = Delay 10 # emitted (dispatch c) w"
    using assms(1,2) by (rule emitted_loop_Cons)
  with assms(3) show ?thesis
    by (simp add: emitted_dispatch_unknown hid_reports_def trace_loop)
qed

theorem unknown_input_reported_witness:
  "emitted loop \<lparr>connected = True, rx = ''z'', trace = []\<rparr> =
     [Delay 10, SerialPrint ''Unknown input: '', SerialPrintln ''z'']
 \<and> hid_reports (emitted loop \<lparr>connected = True, rx = ''z'', trace = []\<rparr>) = []
 \<and> serial_text [CHR 0x0D, CHR 0x0A] (emitted loop \<lparr>connected = True, rx = ''z'', trace = []\<rparr>) =
     ''Unknown input: z'' @ [CHR 0x0D, CHR 0x0A]"
  using unknown_input_reported
    [of "\<lparr>connected = True, rx = ''z'', trace = []\<rparr>" "CHR ''z''" "[]" "[CHR 0x0D, CHR 0x0A]"]
  by (simp add: recognized_def hid_reports_def)

text \<open>
  Claim C4. While connected, reading \<open>w\<close> gives exactly two \<^verbatim>\<open>move(0, -127)\<close> calls
  with a 100 ms pause between them, and then the line with the up arrow (the three bytes of
  U+2191 in UTF-8).
\<close>

theorem up_command_burst:
  assumes "connected w" and "rx w = CHR ''w'' # cs"
  shows "trace (loop w) = trace w @ emitted loop w
       \<and> emitted loop w =
           [Delay 10, Move 0 (- 127), Delay 100, Move 0 (- 127), Delay 100, SerialPrintln up_arrow]
       \<and> moves (emitted loop w) = [(0, - 127), (0, - 127)]
       \<and> up_arrow = [CHR 0xE2, CHR 0x86, CHR 0x91]"
proof -
  have "emitted loop w = Delay 10 # emitted (dispatch (CHR ''w'')) w"
    using assms by (rule emitted_loop_Cons)
  then show ?thesis
    by (simp add: emitted_dispatch_w up_arrow_def trace_loop)
qed

theorem up_command_burst_witness:
  "emitted loop \<lparr>connected = True, rx = ''w'', trace = []\<rparr> =
     [Delay 10, Move 0 (- 127), Delay 100, Move 0 (- 127), Delay 100,
      SerialPrintln [CHR 0xE2, CHR 0x86, CHR 0x91]]"
  using up_command_burst [of "\<lparr>connected = True, rx = ''w'', trace = []\<rparr>" "[]"]
  by simp

text \<open>
  Claim C5. While connected, reading \<open>d\<close> gives exactly two \<^verbatim>\<open>move(50, 0)\<close> calls
  with a 40 ms pause between them, and then the line with the right arrow (the three bytes
  of U+2192 in UTF-8).
\<close>

theorem right_command_burst:
  assumes "connected w" and "rx w = CHR ''d'' # cs"
  shows "trace (loop w) = trace w @ emitted loop w
       \<and> emitted loop w =
           [Delay 10, Move 50 0, Delay 40, Move 50 0, Delay 40, SerialPrintln right_arrow]
       \<and> moves (emitted loop w) = [(50, 0), (50, 0)]
       \<and> right_arrow = [CHR 0xE2, CHR 0x86, CHR 0x92]"
proof -
  have "emitted loop w = Delay 10 # emitted (dispatch (CHR ''d'')) w"
    using assms by (rule emitted_loop_Cons)
  then show ?thesis
    by (simp add: emitted_dispatch_d right_arrow_def trace_loop)
qed

theorem right_command_burst_witness:
  "emitted loop \<lparr>connected = True, rx = ''d'', trace = []\<rparr> =
     [Delay 10, Move 50 0, Delay 40, Move 50 0, Delay 40,
      SerialPrintln [CHR 0xE2, CHR 0x86, CHR 0x92]]"
  using right_command_burst [of "\<lparr>connected = True, rx = ''d'', trace = []\<rparr>" "[]"]
  by simp

text \<open>
  Claim C6. While connected, an iteration tests whether a byte waits. When none does, it
  only makes its 10 ms sleep. When one does, it takes exactly the first byte off the input,
  leaves the rest, and runs the switch on that byte. Both serial calls answer at once:
  the model has no waiting state, and \<^verbatim>\<open>Serial.read()\<close> is reached only when the count
  of waiting bytes is not zero.
\<close>

theorem reader_takes_one_byte:
  assumes "connected w"
  shows "(rx w = [] \<longrightarrow> loop w = w\<lparr>trace := trace w @ [Delay 10]\<rparr>)
       \<and> (\<forall>c cs. rx w = c # cs \<longrightarrow>
            rx (loop w) = cs
          \<and> loop w = dispatch c (w\<lparr>trace := trace w @ [Delay 10], rx := cs\<rparr>))
       \<and> length (rx (loop w)) = length (rx w) - 1
       \<and> (Serial_available w \<noteq> 0 \<longleftrightarrow> rx w \<noteq> [])"
proof (cases "rx w")
  case Nil
  with assms show ?thesis
    by (simp add: loop_connected_Nil Serial_available_def)
next
  case (Cons c cs)
  from assms Cons have "rx (loop w) = cs"
    by (simp add: loop_connected_Cons_frame [of w c cs w])
  with assms Cons show ?thesis
    by (simp add: loop_connected_Cons Serial_available_def)
qed

theorem reader_takes_one_byte_witness:
  "rx (loop \<lparr>connected = True, rx = ''wd'', trace = []\<rparr>) = ''d''
 \<and> loop \<lparr>connected = True, rx = [], trace = []\<rparr> = \<lparr>connected = True, rx = [], trace = [Delay 10]\<rparr>"
proof -
  let ?full = "\<lparr>connected = True, rx = ''wd'', trace = []\<rparr>"
  let ?empty = "\<lparr>connected = True, rx = [], trace = []\<rparr>"
  have "connected ?full" by simp
  from reader_takes_one_byte [OF this]
  have "rx ?full = CHR ''w'' # ''d'' \<longrightarrow> rx (loop ?full) = ''d''"
    by blast
  then have 1: "rx (loop ?full) = ''d''"
    by simp
  have "connected ?empty" by simp
  from reader_takes_one_byte [OF this]
  have "rx ?empty = [] \<longrightarrow> loop ?empty = ?empty\<lparr>trace := trace ?empty @ [Delay 10]\<rparr>"
    by blast
  then have 2: "loop ?empty = \<lparr>connected = True, rx = [], trace = [Delay 10]\<rparr>"
    by simp
  from 1 2 show ?thesis by blast
qed

text \<open>
  Claim C7. While connected, two iterations that read the same character one after the
  other append the same events twice: the second burst equals the first, and nothing of
  the first run changes what the second does.
\<close>

theorem repeated_command_identical:
  assumes "connected w" and "rx w = c # c # cs"
  shows "emitted loop (loop w) = emitted loop w
       \<and> trace (loop (loop w)) = trace w @ emitted loop w @ emitted loop w
       \<and> rx (loop (loop w)) = cs
       \<and> emitted (dispatch c) (dispatch c w) = emitted (dispatch c) w"
proof -
  let ?es = "Delay 10 # emitted (dispatch c) w"
  have 1: "loop w = w\<lparr>trace := trace w @ ?es, rx := c # cs\<rparr>"
    using assms by (rule loop_connected_Cons_frame)
  have 2: "loop (loop w) = (loop w)\<lparr>trace := trace (loop w) @ ?es, rx := cs\<rparr>"
    by (rule loop_connected_Cons_frame) (simp_all add: 1 assms)
  have "emitted loop w = ?es"
    using assms by (rule emitted_loop_Cons)
  moreover have "emitted loop (loop w) = ?es"
    by (rule emitted_loop_Cons [where cs = cs]) (simp_all add: 1 assms)
  moreover have "trace (loop (loop w)) = trace w @ ?es @ ?es"
    by (simp add: 2) (simp add: 1)
  moreover have "rx (loop (loop w)) = cs"
    by (simp add: 2)
  ultimately show ?thesis
    using emitted_dispatch_any [of c "dispatch c w" w] by simp
qed

theorem repeated_command_identical_witness:
  "trace (loop (loop \<lparr>connected = True, rx = ''aa'', trace = []\<rparr>)) =
     [Delay 10, Move (- 50) 0, Delay 50, Move (- 50) 0, Delay 50, SerialPrintln left_arrow,
      Delay 10, Move (- 50) 0, Delay 50, Move (- 50) 0, Delay 50, SerialPrintln left_arrow]"
proof -
  let ?w = "\<lparr>connected = True, rx = ''aa'', trace = []\<rparr>"
  have "emitted loop ?w = Delay 10 # emitted (dispatch (CHR ''a'')) ?w"
    by (rule emitted_loop_Cons) simp_all
  then show ?thesis
    using repeated_command_identical [of ?w "CHR ''a''" "[]"]
    by (simp add: emitted_dispatch_a)
qed

text \<open>
  Claim C8. Every move call the switch makes, from any state and for any character, has
  both arguments among 0, -127, 127, -50 and 50, hence within -127..127; the same holds for
  a whole iteration.
\<close>

theorem move_arguments_in_range:
  "(\<forall>(dx, dy) \<in> set (moves (emitted (dispatch c) w)).
       dx \<in> {0, - 127, 127, - 50, 50} \<and> dy \<in> {0, - 127, 127, - 50, 50}
     \<and> - 127 \<le> dx \<and> dx \<le> 127 \<and> - 127 \<le> dy \<and> dy \<le> 127)
 \<and> (\<forall>(dx, dy) \<in> set (moves (emitted loop w)).
       dx \<in> {0, - 127, 127, - 50, 50} \<and> dy \<in> {0, - 127, 127, - 50, 50}
     \<and> - 127 \<le> dx \<and> dx \<le> 127 \<and> - 127 \<le> dy \<and> dy \<le> 127)"
  using moves_dispatch [of c w] moves_loop [of w] by auto

theorem move_arguments_in_range_witness:
  "(0, - 127) \<in> set (moves (emitted (dispatch (CHR ''w'')) \<lparr>connected = True, rx = [], trace = []\<rparr>))
 \<and> (0 :: int) \<in> {0, - 127, 127, - 50, 50} \<and> (- 127 :: int) \<in> {0, - 127, 127, - 50, 50}
 \<and> - 127 \<le> (0 :: int) \<and> (0 :: int) \<le> 127 \<and> - 127 \<le> (- 127 :: int) \<and> (- 127 :: int) \<le> 127"
proof -
  let ?w = "\<lparr>connected = True, rx = [], trace = []\<rparr>"
  have m: "(0, - 127) \<in> set (moves (emitted (dispatch (CHR ''w'')) ?w))"
    by (simp add: emitted_dispatch_w)
  from move_arguments_in_range [of "CHR ''w''" ?w]
  have "\<forall>(dx, dy) \<in> set (moves (emitted (dispatch (CHR ''w'')) ?w)).
          dx \<in> {0, - 127, 127, - 50, 50} \<and> dy \<in> {0, - 127, 127, - 50, 50}
        \<and> - 127 \<le> dx \<and> dx \<le> 127 \<and> - 127 \<le> dy \<and> dy \<le> 127"
    by (rule conjunct1)
  from bspec [OF this m] m show ?thesis
    by simp
qed

text \<open>
  Claim C9. Each directional burst sleeps after every move call, the last one too, so the
  arrow is printed only after a trailing pause of the same length as the pause between
  the two moves: 100 ms for \<open>w\<close> and \<open>s\<close>, 50 ms for \<open>a\<close>, 40 ms for \<open>d\<close>.
\<close>

theorem directional_trailing_pause:
  "emitted (dispatch (CHR ''w'')) w =
     [Move 0 (- 127), Delay 100, Move 0 (- 127), Delay 100, SerialPrintln up_arrow]
 \<and> emitted (dispatch (CHR ''s'')) w =
     [Move 0 127, Delay 100, Move 0 127, Delay 100, SerialPrintln down_arrow]
 \<and> emitted (dispatch (CHR ''a'')) w =
     [Move (- 50) 0, Delay 50, Move (- 50) 0, Delay 50, SerialPrintln left_arrow]
 \<and> emitted (dispatch (CHR ''d'')) w =
     [Move 50 0, Delay 40, Move 50 0, Delay 40, SerialPrintln right_arrow]"
  by (simp add: emitted_dispatch_known)

theorem directional_trailing_pause_witness:
  "emitted (dispatch (CHR ''a'')) \<lparr>connected = True, rx = [], trace = []\<rparr> =
     [Move (- 50) 0, Delay 50, Move (- 50) 0, Delay 50, SerialPrintln [CHR 0xE2, CHR 0x86, CHR 0x90]]"
  using directional_trailing_pause [of "\<lparr>connected = True, rx = [], trace = []\<rparr>"]
  by (simp add: left_arrow_def)

text \<open>
  Claim C10. What an iteration emits is a function of the connection status and of the
  byte it would read next, and of nothing else: two states that agree on both emit the same
  events, whatever their earlier traces and the bytes further back in the input are. What
  the switch emits for a character is the same from every state.
\<close>

theorem loop_output_determined:
  assumes "connected w1 = connected w2" and "next_input w1 = next_input w2"
  shows "emitted loop w1 = emitted loop w2
       \<and> emitted (dispatch c) w1 = emitted (dispatch c) w2"
proof -
  have "emitted loop w1 = emitted loop w2"
  proof (cases "connected w1")
    case False
    with assms(1) show ?thesis by (simp add: emitted_loop_disconnected)
  next
    case True
    show ?thesis
    proof (cases "rx w1")
      case Nil
      with assms(2) have "rx w2 = []"
        by (simp add: next_input_def split: list.splits)
      with Nil True assms(1) show ?thesis by (simp add: emitted_loop_Nil)
    next
      case (Cons a as)
      with assms(2) obtain bs where "rx w2 = a # bs"
        by (auto simp: next_input_def split: list.splits)
      with Cons True assms(1) show ?thesis
        by (simp add: emitted_loop_Cons [of _ a _ w1])
    qed
  qed
  then show ?thesis
    using emitted_dispatch_any [of c w1 w2] by simp
qed

theorem loop_output_determined_witness:
  "emitted loop \<lparr>connected = True, rx = ''wd'', trace = [Delay 500]\<rparr> =
   emitted loop \<lparr>connected = True, rx = ''w'', trace = []\<rparr>"
  using loop_output_determined
    [of "\<lparr>connected = True, rx = ''wd'', trace = [Delay 500]\<rparr>"
        "\<lparr>connected = True, rx = ''w'', trace = []\<rparr>"]
  by (simp add: next_input_def)

end
